theory Spec2Isabelle
  imports Complex_Main "HOL-Library.AList"
begin

section \<open>Python values used by the TMDb cache\<close>

text \<open>
  The cache of \<^verbatim>\<open>torcp/tmdbcache.py\<close> stores whatever \<^verbatim>\<open>json.load\<close>
  returns and whatever the caller hands to \<^verbatim>\<open>set\<close>. Those values are modelled by
  the datatype \<open>json\<close>: a Python \<^verbatim>\<open>dict\<close> with string keys is an association
  list in insertion order, a \<^verbatim>\<open>list\<close> is a list. A Python \<^verbatim>\<open>str\<close> is a
  \<open>string\<close> whose characters are the code points 0..255.
\<close>

datatype json =
    JNull
  | JBool bool
  | JInt int
  | JFloat real
  | JStr string
  | JArr "json list"
  | JObj "(string \<times> json) list"

text \<open>The exceptions that the modelled statements can raise.\<close>

datatype pyerr =
    TypeError
  | ValueError
  | KeyError
  | AttributeError
  | OverflowError
  | OSError
  | JSONDecodeError
  | UnicodeDecodeError

datatype 'a outcome = Return 'a | Raise pyerr

subsection \<open>Strings: \<^verbatim>\<open>lower\<close>, \<^verbatim>\<open>strip\<close>, \<^verbatim>\<open>str\<close>\<close>

text \<open>
  \<^verbatim>\<open>str.lower\<close> on code points below 256: A..Z and the Latin-1 capitals
  (192..222 except the multiplication sign 215) move up by 32, everything else stays.
\<close>

definition lower_char :: "char \<Rightarrow> char" where
  "lower_char c =
     (let n = (of_char c :: nat)
      in if (65 \<le> n \<and> n \<le> 90) \<or> (192 \<le> n \<and> n \<le> 222 \<and> n \<noteq> 215)
         then char_of (n + 32) else c)"

definition lower :: "string \<Rightarrow> string" where
  "lower s = map lower_char s"

text \<open>
  \<^verbatim>\<open>str.isspace\<close> on code points below 256: tab, line feed, vertical tab, form
  feed, carriage return, the four separators 28..31, space, NEL (133) and the
  no-break space (160).
\<close>

definition isspace :: "char \<Rightarrow> bool" where
  "isspace c =
     (let n = (of_char c :: nat)
      in (9 \<le> n \<and> n \<le> 13) \<or> (28 \<le> n \<and> n \<le> 32) \<or> n = 133 \<or> n = 160)"

definition strip :: "string \<Rightarrow> string" where
  "strip s = rev (dropWhile isspace (rev (dropWhile isspace s)))"

definition digit_char :: "nat \<Rightarrow> char" where
  "digit_char d = char_of (48 + d)"

fun str_nat :: "nat \<Rightarrow> string" where
  "str_nat n = (if n < 10 then [digit_char n] else str_nat (n div 10) @ [digit_char (n mod 10)])"

definition str_int :: "int \<Rightarrow> string" where
  "str_int i = (if i < 0 then CHR ''-'' # str_nat (nat (- i)) else str_nat (nat i))"

text \<open>
  The \<^verbatim>\<open>year\<close> argument of \<^verbatim>\<open>_make_key\<close> is \<^verbatim>\<open>None\<close>, an \<^verbatim>\<open>int\<close>
  or a \<^verbatim>\<open>str\<close>; \<open>truthy\<close> is Python's truth value and \<open>py_str\<close>
  is \<^verbatim>\<open>str(year)\<close>.
\<close>

datatype pyval = PNone | PInt int | PStr string

fun truthy :: "pyval \<Rightarrow> bool" where
  "truthy PNone = False"
| "truthy (PInt i) = (i \<noteq> 0)"
| "truthy (PStr s) = (s \<noteq> [])"

fun py_str :: "pyval \<Rightarrow> string" where
  "py_str PNone = ''None''"
| "py_str (PInt i) = str_int i"
| "py_str (PStr s) = s"

section \<open>Key normalisation\<close>

text \<open>
  \<^verbatim>\<open>
  def _make_key(self, media_type, title, year):
      normalized_title = title.lower().strip() if title else ''
      year_str = str(year) if year else '0'
      media_type_str = media_type.lower() if media_type else 'unknown'
      return f"{media_type_str}|{normalized_title}|{year_str}"
  \<close>
  \<open>media_type\<close> and \<open>title\<close> are \<^verbatim>\<open>None\<close> or a \<^verbatim>\<open>str\<close>; the
  empty string is falsy like \<^verbatim>\<open>None\<close>.
\<close>

definition make_key :: "string option \<Rightarrow> string option \<Rightarrow> pyval \<Rightarrow> string" where
  "make_key media_type title year =
     (let normalized_title = (case title of
                                None \<Rightarrow> ''''
                              | Some t \<Rightarrow> if t \<noteq> [] then strip (lower t) else '''');
          year_str = (if truthy year then py_str year else ''0'');
          media_type_str = (case media_type of
                              None \<Rightarrow> ''unknown''
                            | Some m \<Rightarrow> if m \<noteq> [] then lower m else ''unknown'')
      in media_type_str @ ''|'' @ normalized_title @ ''|'' @ year_str)"

section \<open>Python operations on the cached values\<close>

text \<open>
  The cache and its entries are ordinary Python objects, so \<^verbatim>\<open>in\<close>,
  subscription, item assignment, \<^verbatim>\<open>del\<close>, \<^verbatim>\<open>len\<close> and
  \<^verbatim>\<open>dict.get\<close> are modelled on every JSON value, with the exception Python
  raises where the operation is not supported. The key is always a \<^verbatim>\<open>str\<close>.
\<close>

fun is_substring :: "string \<Rightarrow> string \<Rightarrow> bool" where
  "is_substring sub [] = (sub = [])"
| "is_substring sub (c # cs) = (take (length sub) (c # cs) = sub \<or> is_substring sub cs)"

fun py_contains :: "string \<Rightarrow> json \<Rightarrow> bool outcome" where
  "py_contains k (JObj al) = Return (k \<in> set (map fst al))"
| "py_contains k (JArr xs) = Return (JStr k \<in> set xs)"
| "py_contains k (JStr s) = Return (is_substring k s)"
| "py_contains k JNull = Raise TypeError"
| "py_contains k (JBool b) = Raise TypeError"
| "py_contains k (JInt i) = Raise TypeError"
| "py_contains k (JFloat r) = Raise TypeError"

fun py_getitem :: "json \<Rightarrow> string \<Rightarrow> json outcome" where
  "py_getitem (JObj al) k = (case map_of al k of None \<Rightarrow> Raise KeyError | Some v \<Rightarrow> Return v)"
| "py_getitem other k = Raise TypeError"

fun py_setitem :: "json \<Rightarrow> string \<Rightarrow> json \<Rightarrow> json outcome" where
  "py_setitem (JObj al) k v = Return (JObj (AList.update k v al))"
| "py_setitem other k v = Raise TypeError"

fun py_delitem :: "json \<Rightarrow> string \<Rightarrow> json outcome" where
  "py_delitem (JObj al) k =
     (if k \<in> set (map fst al) then Return (JObj (AList.delete k al)) else Raise KeyError)"
| "py_delitem other k = Raise TypeError"

fun py_len :: "json \<Rightarrow> nat outcome" where
  "py_len (JObj al) = Return (length al)"
| "py_len (JArr xs) = Return (length xs)"
| "py_len (JStr s) = Return (length s)"
| "py_len other = Raise TypeError"

fun py_get :: "json \<Rightarrow> string \<Rightarrow> json \<Rightarrow> json outcome" where
  "py_get (JObj al) k dflt = Return (case map_of al k of None \<Rightarrow> dflt | Some v \<Rightarrow> v)"
| "py_get other k dflt = Raise AttributeError"

section \<open>Dates and times\<close>

text \<open>
  A \<^verbatim>\<open>datetime\<close> is the number of microseconds of its wall-clock fields since
  0001-01-01T00:00:00, with the UTC offset when it is timezone-aware. The largest
  value, 9999-12-31T23:59:59.999999, is one below \<open>MAX_TICKS\<close> (3652059 days).
  \<^verbatim>\<open>datetime.now()\<close> is naive; its reading is an argument \<open>now\<close> of every
  operation that calls it. \<^verbatim>\<open>isoformat\<close> and \<^verbatim>\<open>fromisoformat\<close> belong to
  the standard library and are parameters of the model; \<open>fromisoformat\<close> gives
  \<open>None\<close> where the library raises \<^verbatim>\<open>ValueError\<close>.
\<close>

datatype datetime = DateTime (ticks: int) (utcoffset: "int option")

record datetime_lib =
  isoformat :: "int \<Rightarrow> string"
  fromisoformat :: "string \<Rightarrow> datetime option"

definition MAX_TICKS :: int where
  "MAX_TICKS = 3652059 * 86400000000"

definition TTL_DAYS :: int where
  "TTL_DAYS = 30"

definition timedelta_days :: "int \<Rightarrow> int" where
  "timedelta_days d = d * 86400000000"

text \<open>\<^verbatim>\<open>datetime.fromisoformat(v)\<close>: a \<^verbatim>\<open>TypeError\<close> unless \<open>v\<close> is a \<^verbatim>\<open>str\<close>.\<close>

definition py_fromisoformat :: "datetime_lib \<Rightarrow> json \<Rightarrow> datetime outcome" where
  "py_fromisoformat L v =
     (case v of
        JStr s \<Rightarrow> (case fromisoformat L s of None \<Rightarrow> Raise ValueError | Some d \<Rightarrow> Return d)
      | _ \<Rightarrow> Raise TypeError)"

text \<open>\<^verbatim>\<open>timestamp + delta\<close>: an \<^verbatim>\<open>OverflowError\<close> outside the range of dates.\<close>

definition dt_add :: "datetime \<Rightarrow> int \<Rightarrow> datetime outcome" where
  "dt_add d delta =
     (let r = ticks d + delta
      in if 0 \<le> r \<and> r < MAX_TICKS then Return (DateTime r (utcoffset d)) else Raise OverflowError)"

text \<open>
  \<^verbatim>\<open>datetime.now() > expiry\<close>: comparing the naive \<open>now\<close> with an aware
  \<open>expiry\<close> raises \<^verbatim>\<open>TypeError\<close>.
\<close>

definition now_gt :: "int \<Rightarrow> datetime \<Rightarrow> bool outcome" where
  "now_gt now expiry =
     (case utcoffset expiry of None \<Rightarrow> Return (now > ticks expiry) | Some off \<Rightarrow> Raise TypeError)"

section \<open>The file system and the log\<close>

text \<open>
  The cache touches one directory (\<^verbatim>\<open>~/.torcp\<close>) and one file in it
  (\<^verbatim>\<open>tmdb_cache.json\<close>). A file is described by what
  \<^verbatim>\<open>open(path, 'r', encoding='utf-8')\<close> and \<^verbatim>\<open>json.load\<close> make of it: bytes
  that are not UTF-8, text that is not JSON, or a JSON document. \<^verbatim>\<open>json.dump\<close>
  of a value followed by \<^verbatim>\<open>json.load\<close> gives the value back, so a successful
  write leaves \<open>Document data\<close>. Whether a system call succeeds is decided by the
  \<open>can_\<close> fields. Every system call is recorded in \<open>io_trace\<close>, every call of
  the logger in \<open>logged\<close>, both with the newest event last.
\<close>

datatype file_content = Undecodable | Malformed | Document json

datatype write_mode = Writable | OpenDenied | WriteFails

datatype io_event = ExistsDir | ExistsFile | Makedirs | OpenRead | OpenWrite | Remove

datatype level = DEBUG | INFO | WARNING

datatype log_msg =
    LoadedEntries nat
  | LoadFailed pyerr
  | SavedEntries nat
  | SaveFailed pyerr
  | CacheExpired string
  | CacheCleared
  | DeleteFailed pyerr

record world =
  dir_exists :: bool
  cache_file :: "file_content option"
  can_mkdir :: bool
  can_read :: bool
  write_mode :: write_mode
  can_remove :: bool
  io_trace :: "io_event list"
  logged :: "(level \<times> log_msg) list"

definition trace :: "io_event \<Rightarrow> world \<Rightarrow> world" where
  "trace ev w = w\<lparr>io_trace := io_trace w @ [ev]\<rparr>"

definition emit :: "level \<Rightarrow> log_msg \<Rightarrow> world \<Rightarrow> world" where
  "emit lv msg w = w\<lparr>logged := logged w @ [(lv, msg)]\<rparr>"

text \<open>\<^verbatim>\<open>os.makedirs(cache_dir)\<close>\<close>

definition makedirs :: "world \<Rightarrow> unit outcome \<times> world" where
  "makedirs w =
     (let w1 = trace Makedirs w
      in if can_mkdir w1 then (Return (), w1\<lparr>dir_exists := True\<rparr>) else (Raise OSError, w1))"

text \<open>
  \<^verbatim>\<open>with open(cache_path, 'r', encoding='utf-8') as f: data = json.load(f)\<close>;
  called only when the file exists.
\<close>

definition read_json :: "file_content \<Rightarrow> world \<Rightarrow> json outcome \<times> world" where
  "read_json content w =
     (let w1 = trace OpenRead w
      in if \<not> can_read w1 then (Raise OSError, w1)
         else case content of
                Undecodable \<Rightarrow> (Raise UnicodeDecodeError, w1)
              | Malformed \<Rightarrow> (Raise JSONDecodeError, w1)
              | Document data \<Rightarrow> (Return data, w1))"

text \<open>
  \<^verbatim>\<open>with open(cache_path, 'w', encoding='utf-8') as f: json.dump(data, f, ...)\<close>.
  Opening for writing truncates the file, so a write that fails after the open
  leaves text that is not JSON.
\<close>

definition write_json :: "json \<Rightarrow> world \<Rightarrow> unit outcome \<times> world" where
  "write_json data w =
     (let w1 = trace OpenWrite w
      in if \<not> dir_exists w1 then (Raise OSError, w1)
         else case write_mode w1 of
                Writable \<Rightarrow> (Return (), w1\<lparr>cache_file := Some (Document data)\<rparr>)
              | OpenDenied \<Rightarrow> (Raise OSError, w1)
              | WriteFails \<Rightarrow> (Raise OSError, w1\<lparr>cache_file := Some Malformed\<rparr>))"

text \<open>\<^verbatim>\<open>os.remove(cache_path)\<close>\<close>

definition remove_file :: "world \<Rightarrow> unit outcome \<times> world" where
  "remove_file w =
     (let w1 = trace Remove w
      in if can_remove w1 then (Return (), w1\<lparr>cache_file := None\<rparr>) else (Raise OSError, w1))"

section \<open>The cache\<close>

text \<open>
  The attributes of a \<^verbatim>\<open>TMDbCache\<close> object. Every method takes the object and
  the world and returns what it returns or raises, the object and the world as
  it leaves them: an exception leaves the object as the statements before it made it.
\<close>

record tmdbcache =
  disabled :: bool
  cache :: json
  dirty :: bool

text \<open>
  \<^verbatim>\<open>
  def _load(self):
      cache_path = self._get_cache_path()
      if os.path.exists(cache_path):
          try:
              with open(cache_path, 'r', encoding='utf-8') as f:
                  data = json.load(f)
                  self.cache = data.get('entries', {})
                  logger.info(f"Loaded {len(self.cache)} entries from TMDB cache")
          except (json.JSONDecodeError, IOError) as e:
              logger.warning(f"Failed to load TMDB cache: {e}")
              self.cache = {}
  \<close>
\<close>

definition load :: "tmdbcache \<Rightarrow> world \<Rightarrow> unit outcome \<times> tmdbcache \<times> world" where
  "load self w =
     (let w1 = trace ExistsFile w
      in case cache_file w1 of
           None \<Rightarrow> (Return (), self, w1)
         | Some content \<Rightarrow>
             (case read_json content w1 of
                (Raise e, w2) \<Rightarrow>
                  if e = JSONDecodeError \<or> e = OSError
                  then (Return (), self\<lparr>cache := JObj []\<rparr>, emit WARNING (LoadFailed e) w2)
                  else (Raise e, self, w2)
              | (Return data, w2) \<Rightarrow>
                  (case py_get data ''entries'' (JObj []) of
                     Raise e \<Rightarrow>
                       if e = JSONDecodeError \<or> e = OSError
                       then (Return (), self\<lparr>cache := JObj []\<rparr>, emit WARNING (LoadFailed e) w2)
                       else (Raise e, self, w2)
                   | Return entries \<Rightarrow>
                       (let self1 = self\<lparr>cache := entries\<rparr>
                        in case py_len entries of
                             Raise e \<Rightarrow>
                               if e = JSONDecodeError \<or> e = OSError
                               then (Return (), self1\<lparr>cache := JObj []\<rparr>,
                                     emit WARNING (LoadFailed e) w2)
                               else (Raise e, self1, w2)
                           | Return n \<Rightarrow> (Return (), self1, emit INFO (LoadedEntries n) w2)))))"

text \<open>
  \<^verbatim>\<open>
  def __init__(self, disabled=False):
      self.disabled = disabled
      self.cache = {}
      self._dirty = False
      if not disabled:
          self._load()
  \<close>
\<close>

definition init :: "bool \<Rightarrow> world \<Rightarrow> unit outcome \<times> tmdbcache \<times> world" where
  "init dis w =
     (let self = \<lparr>disabled = dis, cache = JObj [], dirty = False\<rparr>
      in if \<not> dis then load self w else (Return (), self, w))"

text \<open>
  \<^verbatim>\<open>
  def _save(self):
      if self.disabled:
          return
      cache_dir = self._get_cache_dir()
      if not os.path.exists(cache_dir):
          os.makedirs(cache_dir)
      cache_path = self._get_cache_path()
      try:
          data = {'version': '1.0', 'updated': datetime.now().isoformat(),
                  'entries': self.cache}
          with open(cache_path, 'w', encoding='utf-8') as f:
              json.dump(data, f, ensure_ascii=False, indent=2)
          logger.info(f"Saved {len(self.cache)} entries to TMDB cache")
      except IOError as e:
          logger.warning(f"Failed to save TMDB cache: {e}")
  \<close>
  The call of \<^verbatim>\<open>os.makedirs\<close> stands before the \<^verbatim>\<open>try\<close>;
  \<open>document\<close> is the dictionary \<^verbatim>\<open>data\<close>.
\<close>

definition document :: "datetime_lib \<Rightarrow> int \<Rightarrow> json \<Rightarrow> json" where
  "document L now entries =
     JObj [(''version'', JStr ''1.0''),
           (''updated'', JStr (isoformat L now)),
           (''entries'', entries)]"

definition save :: "datetime_lib \<Rightarrow> int \<Rightarrow> tmdbcache \<Rightarrow> world \<Rightarrow> unit outcome \<times> tmdbcache \<times> world" where
  "save L now self w =
     (if disabled self then (Return (), self, w)
      else
        let w1 = trace ExistsDir w
        in case (if \<not> dir_exists w1 then makedirs w1 else (Return (), w1)) of
             (Raise e, w2) \<Rightarrow> (Raise e, self, w2)
           | (Return u, w2) \<Rightarrow>
               (let data = document L now (cache self)
                in case write_json data w2 of
                     (Raise e, w3) \<Rightarrow>
                       if e = OSError then (Return (), self, emit WARNING (SaveFailed e) w3)
                       else (Raise e, self, w3)
                   | (Return u', w3) \<Rightarrow>
                       (case py_len (cache self) of
                          Raise e \<Rightarrow>
                            if e = OSError then (Return (), self, emit WARNING (SaveFailed e) w3)
                            else (Raise e, self, w3)
                        | Return n \<Rightarrow> (Return (), self, emit INFO (SavedEntries n) w3))))"

text \<open>
  \<^verbatim>\<open>
  def _is_expired(self, entry):
      if 'timestamp' not in entry:
          return True
      try:
          timestamp = datetime.fromisoformat(entry['timestamp'])
          expiry = timestamp + timedelta(days=self.TTL_DAYS)
          return datetime.now() > expiry
      except (ValueError, TypeError):
          return True
  \<close>
  \<open>try_expired\<close> is the body of the \<^verbatim>\<open>try\<close>.
\<close>

definition try_expired :: "datetime_lib \<Rightarrow> int \<Rightarrow> json \<Rightarrow> bool outcome" where
  "try_expired L now entry =
     (case py_getitem entry ''timestamp'' of
        Raise e \<Rightarrow> Raise e
      | Return v \<Rightarrow>
          (case py_fromisoformat L v of
             Raise e \<Rightarrow> Raise e
           | Return timestamp \<Rightarrow>
               (case dt_add timestamp (timedelta_days TTL_DAYS) of
                  Raise e \<Rightarrow> Raise e
                | Return expiry \<Rightarrow> now_gt now expiry)))"

definition is_expired :: "datetime_lib \<Rightarrow> int \<Rightarrow> json \<Rightarrow> bool outcome" where
  "is_expired L now entry =
     (case py_contains ''timestamp'' entry of
        Raise e \<Rightarrow> Raise e
      | Return present \<Rightarrow>
          if \<not> present then Return True
          else case try_expired L now entry of
                 Raise e \<Rightarrow> if e = ValueError \<or> e = TypeError then Return True else Raise e
               | Return b \<Rightarrow> Return b)"

text \<open>
  \<^verbatim>\<open>
  def get(self, key):
      if self.disabled:
          return None
      if key not in self.cache:
          return None
      entry = self.cache[key]
      if self._is_expired(entry):
          logger.debug(f"Cache expired: {key}")
          del self.cache[key]
          self._dirty = True
          return None
      return entry
  \<close>
\<close>

definition get :: "datetime_lib \<Rightarrow> int \<Rightarrow> string \<Rightarrow> tmdbcache \<Rightarrow> world
                   \<Rightarrow> json option outcome \<times> tmdbcache \<times> world" where
  "get L now key self w =
     (if disabled self then (Return None, self, w)
      else case py_contains key (cache self) of
             Raise e \<Rightarrow> (Raise e, self, w)
           | Return present \<Rightarrow>
               if \<not> present then (Return None, self, w)
               else case py_getitem (cache self) key of
                      Raise e \<Rightarrow> (Raise e, self, w)
                    | Return entry \<Rightarrow>
                        (case is_expired L now entry of
                           Raise e \<Rightarrow> (Raise e, self, w)
                         | Return expired \<Rightarrow>
                             if expired then
                               (let w1 = emit DEBUG (CacheExpired key) w
                                in case py_delitem (cache self) key of
                                     Raise e \<Rightarrow> (Raise e, self, w1)
                                   | Return c \<Rightarrow>
                                       (Return None, self\<lparr>cache := c, dirty := True\<rparr>, w1))
                             else (Return (Some entry), self, w)))"

definition get_by_search :: "datetime_lib \<Rightarrow> int \<Rightarrow> string option \<Rightarrow> string option \<Rightarrow> pyval
                             \<Rightarrow> tmdbcache \<Rightarrow> world \<Rightarrow> json option outcome \<times> tmdbcache \<times> world" where
  "get_by_search L now media_type title year self w =
     (let key = make_key media_type title year in get L now key self w)"

text \<open>
  \<^verbatim>\<open>
  def set(self, key, entry):
      if self.disabled:
          return
      entry['timestamp'] = datetime.now().isoformat()
      self.cache[key] = entry
      self._dirty = True
  \<close>
  The assignment to \<^verbatim>\<open>entry['timestamp']\<close> changes the caller's object, which is
  the object the cache then holds; \<open>stamp\<close> is that object after the assignment.
\<close>

definition stamp :: "datetime_lib \<Rightarrow> int \<Rightarrow> json \<Rightarrow> json outcome" where
  "stamp L now entry = py_setitem entry ''timestamp'' (JStr (isoformat L now))"

definition set_entry :: "datetime_lib \<Rightarrow> int \<Rightarrow> string \<Rightarrow> json \<Rightarrow> tmdbcache \<Rightarrow> world
                         \<Rightarrow> unit outcome \<times> tmdbcache \<times> world" where
  "set_entry L now key entry self w =
     (if disabled self then (Return (), self, w)
      else case stamp L now entry of
             Raise e \<Rightarrow> (Raise e, self, w)
           | Return entry1 \<Rightarrow>
               (case py_setitem (cache self) key entry1 of
                  Raise e \<Rightarrow> (Raise e, self, w)
                | Return c \<Rightarrow> (Return (), self\<lparr>cache := c, dirty := True\<rparr>, w)))"

definition set_by_search :: "datetime_lib \<Rightarrow> int \<Rightarrow> string option \<Rightarrow> string option \<Rightarrow> pyval \<Rightarrow> json
                             \<Rightarrow> tmdbcache \<Rightarrow> world \<Rightarrow> unit outcome \<times> tmdbcache \<times> world" where
  "set_by_search L now media_type title year entry self w =
     (let key = make_key media_type title year in set_entry L now key entry self w)"

text \<open>
  \<^verbatim>\<open>
  def clear(self):
      self.cache = {}
      self._dirty = True
      # Also delete the file
      cache_path = self._get_cache_path()
      if os.path.exists(cache_path):
          try:
              os.remove(cache_path)
              logger.info("TMDB cache cleared")
          except IOError as e:
              logger.warning(f"Failed to delete cache file: {e}")
  \<close>
\<close>

definition clear :: "tmdbcache \<Rightarrow> world \<Rightarrow> unit outcome \<times> tmdbcache \<times> world" where
  "clear self w =
     (let self1 = self\<lparr>cache := JObj [], dirty := True\<rparr>;
          w1 = trace ExistsFile w
      in if cache_file w1 \<noteq> None then
           (case remove_file w1 of
              (Raise e, w2) \<Rightarrow>
                if e = OSError then (Return (), self1, emit WARNING (DeleteFailed e) w2)
                else (Raise e, self1, w2)
            | (Return u, w2) \<Rightarrow> (Return (), self1, emit INFO CacheCleared w2))
         else (Return (), self1, w1))"

text \<open>
  \<^verbatim>\<open>
  def close(self):
      if self._dirty:
          self._save()
          self._dirty = False
  \<close>
\<close>

definition close :: "datetime_lib \<Rightarrow> int \<Rightarrow> tmdbcache \<Rightarrow> world \<Rightarrow> unit outcome \<times> tmdbcache \<times> world" where
  "close L now self w =
     (if dirty self then
        (case save L now self w of
           (Raise e, self1, w1) \<Rightarrow> (Raise e, self1, w1)
         | (Return u, self1, w1) \<Rightarrow> (Return (), self1\<lparr>dirty := False\<rparr>, w1))
      else (Return (), self, w))"

section \<open>Sequences of calls\<close>

text \<open>
  A caller's use of one cache object is a list of calls, each with the reading
  of the clock at that call. A call that raises leaves the object and the world
  as they are at the raise, and the caller may go on.
\<close>

datatype op =
    Get int string
  | GetBySearch int "string option" "string option" pyval
  | SetEntry int string json
  | SetBySearch int "string option" "string option" pyval json
  | Clear
  | Close int

fun step :: "datetime_lib \<Rightarrow> op \<Rightarrow> tmdbcache \<times> world \<Rightarrow> tmdbcache \<times> world" where
  "step L (Get now key) (self, w) = snd (get L now key self w)"
| "step L (GetBySearch now m t y) (self, w) = snd (get_by_search L now m t y self w)"
| "step L (SetEntry now key entry) (self, w) = snd (set_entry L now key entry self w)"
| "step L (SetBySearch now m t y entry) (self, w) = snd (set_by_search L now m t y entry self w)"
| "step L Clear (self, w) = snd (clear self w)"
| "step L (Close now) (self, w) = snd (close L now self w)"

fun run :: "datetime_lib \<Rightarrow> op list \<Rightarrow> tmdbcache \<times> world \<Rightarrow> tmdbcache \<times> world" where
  "run L [] sw = sw"
| "run L (c # cs) sw = run L cs (step L c sw)"

text \<open>
  What holds of every object a constructor has returned, and after every call on
  it: a disabled cache holds nothing, and \<^verbatim>\<open>len(self.cache)\<close> is defined.
\<close>

definition sized :: "json \<Rightarrow> bool" where
  "sized c = (case py_len c of Return n \<Rightarrow> True | Raise e \<Rightarrow> False)"

definition reachable_inv :: "tmdbcache \<Rightarrow> bool" where
  "reachable_inv self = ((if disabled self then cache self = JObj [] else True) \<and> sized (cache self))"


section \<open>Sample data\<close>

text \<open>
  An excerpt of the standard library for the examples: the instant
  2024-01-15T10:30:00 is 63840911400000000 microseconds after 0001-01-01T00:00:00,
  and no other string is parsed. A world with no cache directory in which every
  system call succeeds, and one that holds a cache file.
\<close>

definition T0 :: int where
  "T0 = 63840911400000000"

definition sample_lib :: datetime_lib where
  "sample_lib =
     \<lparr>isoformat = (\<lambda>t. if t = T0 then ''2024-01-15T10:30:00'' else []),
      fromisoformat = (\<lambda>s. if s = ''2024-01-15T10:30:00'' then Some (DateTime T0 None) else None)\<rparr>"

definition fresh_world :: world where
  "fresh_world =
     \<lparr>dir_exists = False, cache_file = None, can_mkdir = True, can_read = True,
      write_mode = Writable, can_remove = True, io_trace = [], logged = []\<rparr>"

definition matrix_key :: string where
  "matrix_key = ''movie|the matrix|1999''"

definition matrix_entry :: json where
  "matrix_entry = JObj [(''id'', JInt 603), (''title'', JStr ''The Matrix'')]"

definition stamped_entry :: json where
  "stamped_entry = JObj [(''id'', JInt 603), (''timestamp'', JStr ''2024-01-15T10:30:00'')]"

definition stored_cache :: tmdbcache where
  "stored_cache = \<lparr>disabled = False, cache = JObj [(matrix_key, stamped_entry)], dirty = False\<rparr>"

definition disabled_cache :: tmdbcache where
  "disabled_cache = \<lparr>disabled = True, cache = JObj [], dirty = False\<rparr>"

definition dirty_cache :: tmdbcache where
  "dirty_cache = \<lparr>disabled = False, cache = JObj [(matrix_key, stamped_entry)], dirty = True\<rparr>"

definition stored_world :: world where
  "stored_world =
     \<lparr>dir_exists = True,
      cache_file = Some (Document (JObj [(''version'', JStr ''1.0''),
                                         (''updated'', JStr ''2024-01-15T10:30:00''),
                                         (''entries'', JObj [(matrix_key, stamped_entry)])])),
      can_mkdir = True, can_read = True, write_mode = Writable, can_remove = True,
      io_trace = [], logged = []\<rparr>"

section \<open>Properties of key normalisation\<close>

lemma isspace_lower_char: "isspace (lower_char c) = isspace c"
proof -
  have "of_char (char_of (of_char c + 32 :: nat)) = (of_char c + 32 :: nat)"
    if "(of_char c :: nat) \<le> 222"
    using that by (simp add: of_char_of)
  then show ?thesis
    by (auto simp: isspace_def lower_char_def Let_def)
qed

lemma dropWhile_isspace_lower:
  "dropWhile isspace (map lower_char s) = map lower_char (dropWhile isspace s)"
  by (induction s) (simp_all add: isspace_lower_char)

lemma strip_lower_commute: "strip (lower s) = lower (strip s)"
proof -
  have "dropWhile isspace (rev (map lower_char (dropWhile isspace s)))
          = map lower_char (dropWhile isspace (rev (dropWhile isspace s)))"
    by (simp only: rev_map dropWhile_isspace_lower)
  then show ?thesis
    by (simp add: strip_def lower_def dropWhile_isspace_lower rev_map)
qed

lemma dropWhile_isspace_append:
  "\<forall>c \<in> set ws. isspace c \<Longrightarrow> dropWhile isspace (ws @ s) = dropWhile isspace s"
  by (induction ws) simp_all

lemma strip_padding:
  assumes "\<forall>c \<in> set ws1. isspace c" and "\<forall>c \<in> set ws2. isspace c"
  shows "strip (ws1 @ s @ ws2) = strip s"
proof -
  have front: "dropWhile isspace (ws1 @ s @ ws2) = dropWhile isspace (s @ ws2)"
    using assms(1) by (rule dropWhile_isspace_append)
  have ws2': "\<forall>c \<in> set (rev ws2). isspace c"
    using assms(2) by simp
  show ?thesis
  proof (cases "\<forall>c \<in> set s. isspace c")
    case True
    have "\<forall>c \<in> set (s @ ws2). isspace c"
      using True assms(2) by auto
    then have a: "dropWhile isspace (s @ ws2) = []"
      by (simp only: dropWhile_eq_Nil_conv)
    have b: "dropWhile isspace s = []"
      using True by simp
    show ?thesis
      unfolding strip_def front a b by simp
  next
    case False
    then have "dropWhile isspace s \<noteq> []"
      by simp
    moreover have "dropWhile isspace (s @ ws2) = dropWhile isspace s @ ws2"
    proof -
      from False obtain x where "x \<in> set s" and "\<not> isspace x"
        by blast
      then show ?thesis
        by (rule dropWhile_append1)
    qed
    ultimately show ?thesis
      using dropWhile_isspace_append [OF ws2', of "rev (dropWhile isspace s)"]
      by (simp add: strip_def front)
  qed
qed

lemma strip_Nil: "strip [] = []"
  by (simp add: strip_def)

lemma normalized_title_eq:
  "(if t \<noteq> [] then strip (lower t) else []) = strip (lower t)"
  by (simp add: strip_def lower_def)

text \<open>
  Claim C5. \<open>make_key\<close> is a total function of its three arguments, and its value
  is the lowercased media type (\<open>unknown\<close> when absent), the lowercased and
  trimmed title (empty when absent) and the stringified year (\<open>0\<close> when absent),
  joined with \<open>|\<close>. Padding the title with whitespace, or changing the case of
  the title or of the media type, does not change the key; in particular
  \<open>"  The Matrix "\<close> and \<open>"the matrix"\<close> give the same key, and
  \<open>("Movie", None, None)\<close> gives \<open>movie||0\<close>.
\<close>

theorem make_key_normalised:
  "make_key media_type title year =
       (case media_type of None \<Rightarrow> ''unknown''
        | Some m \<Rightarrow> if m = [] then ''unknown'' else lower m)
     @ ''|'' @ (case title of None \<Rightarrow> [] | Some t \<Rightarrow> strip (lower t))
     @ ''|'' @ (if truthy year then py_str year else ''0'')
   \<and> (\<forall>ws1 ws2 t t' m m'.
         (\<forall>c \<in> set ws1. isspace c) \<and> (\<forall>c \<in> set ws2. isspace c)
         \<and> lower t' = lower t \<and> lower m' = lower m \<longrightarrow>
         make_key (Some m') (Some (ws1 @ t' @ ws2)) year = make_key (Some m) (Some t) year)
   \<and> make_key media_type (Some ''  The Matrix '') (PInt 1999)
       = make_key media_type (Some ''the matrix'') (PInt 1999)
   \<and> make_key (Some ''Movie'') None PNone = ''movie||0''"
proof (intro conjI allI impI)
  show "make_key media_type title year =
       (case media_type of None \<Rightarrow> ''unknown''
        | Some m \<Rightarrow> if m = [] then ''unknown'' else lower m)
     @ ''|'' @ (case title of None \<Rightarrow> [] | Some t \<Rightarrow> strip (lower t))
     @ ''|'' @ (if truthy year then py_str year else ''0'')"
    by (simp add: make_key_def Let_def normalized_title_eq split: option.split)
next
  fix ws1 ws2 t t' m m'
  assume h: "(\<forall>c \<in> set ws1. isspace c) \<and> (\<forall>c \<in> set ws2. isspace c)
             \<and> lower t' = lower t \<and> lower m' = lower m"
  have "strip (lower (ws1 @ t' @ ws2)) = lower (strip (ws1 @ t' @ ws2))"
    by (rule strip_lower_commute)
  also have "\<dots> = lower (strip t')"
    using h by (simp add: strip_padding)
  also have "\<dots> = strip (lower t)"
    using h by (simp add: strip_lower_commute [symmetric])
  finally have title_eq: "strip (lower (ws1 @ t' @ ws2)) = strip (lower t)" .
  have "(m' = []) = (m = [])"
    using h by (auto simp: lower_def dest: arg_cong [where f = length])
  then show "make_key (Some m') (Some (ws1 @ t' @ ws2)) year = make_key (Some m) (Some t) year"
    using h unfolding make_key_def Let_def normalized_title_eq option.case title_eq
    by simp
next
  have "strip (lower ''  The Matrix '') = strip (lower ''the matrix'')"
    by (simp add: strip_def lower_def lower_char_def isspace_def char_of_eq_iff)
  then show "make_key media_type (Some ''  The Matrix '') (PInt 1999)
       = make_key media_type (Some ''the matrix'') (PInt 1999)"
    by (simp only: make_key_def Let_def normalized_title_eq option.case)
next
  show "make_key (Some ''Movie'') None PNone = ''movie||0''"
    by (simp add: make_key_def lower_def lower_char_def char_of_eq_iff)
qed

theorem make_key_normalised_witness:
  "isspace (CHR '' '')
   \<and> lower ''DARK'' = lower ''Dark'' \<and> lower ''TV'' = lower ''tv''
   \<and> make_key (Some ''TV'') (Some ('' '' @ ''DARK'' @ ''  '')) (PStr ''2017'')
       = make_key (Some ''tv'') (Some ''Dark'') (PStr ''2017'')
   \<and> make_key (Some ''tv'') (Some ''Dark'') (PStr ''2017'') = ''tv|dark|2017''"
proof -
  have pad: "(\<forall>c \<in> set '' ''. isspace c) \<and> (\<forall>c \<in> set ''  ''. isspace c)"
    by (simp add: isspace_def)
  have low: "lower ''DARK'' = lower ''Dark'' \<and> lower ''TV'' = lower ''tv''"
    by (simp add: lower_def lower_char_def char_of_eq_iff)
  have "make_key (Some ''TV'') (Some ('' '' @ ''DARK'' @ ''  '')) (PStr ''2017'')
          = make_key (Some ''tv'') (Some ''Dark'') (PStr ''2017'')"
    using make_key_normalised [of None None "PStr ''2017''"] pad low by blast
  moreover have "make_key (Some ''tv'') (Some ''Dark'') (PStr ''2017'') = ''tv|dark|2017''"
    using make_key_normalised [of "Some ''tv''" "Some ''Dark''" "PStr ''2017''"]
    by (simp add: strip_def lower_def lower_char_def isspace_def char_of_eq_iff)
  moreover have "isspace (CHR '' '')"
    by (simp add: isspace_def)
  ultimately show ?thesis
    using low by blast
qed

section \<open>Expiry on the read path\<close>

lemma key_in_dom: "(k \<in> fst ` set al) = (map_of al k \<noteq> None)"
  by (simp add: map_of_eq_None_iff)

lemma try_expired_JObj:
  "try_expired L now (JObj fs) =
     (case map_of fs ''timestamp'' of
        None \<Rightarrow> Raise KeyError
      | Some v \<Rightarrow>
          (case py_fromisoformat L v of
             Raise e \<Rightarrow> Raise e
           | Return d \<Rightarrow>
               if 0 \<le> ticks d + timedelta_days TTL_DAYS \<and> ticks d + timedelta_days TTL_DAYS < MAX_TICKS
               then (case utcoffset d of
                       None \<Rightarrow> Return (now > ticks d + timedelta_days TTL_DAYS)
                     | Some off \<Rightarrow> Raise TypeError)
               else Raise OverflowError))"
  by (simp add: try_expired_def dt_add_def now_gt_def Let_def split: option.split outcome.split)






text \<open>
  Two more outcomes of the \<^verbatim>\<open>try\<close>: a timezone-aware timestamp cannot be
  compared with the naive clock (\<^verbatim>\<open>TypeError\<close>, caught, so the entry counts as
  expired), and a timestamp within 30 days of the last date raises
  \<^verbatim>\<open>OverflowError\<close>, which the \<^verbatim>\<open>except\<close> clause does not name.
\<close>

lemma is_expired_aware:
  assumes "map_of fs ''timestamp'' = Some (JStr s)"
    and "fromisoformat L s = Some (DateTime t (Some off))"
    and "0 \<le> t + timedelta_days TTL_DAYS" and "t + timedelta_days TTL_DAYS < MAX_TICKS"
  shows "is_expired L now (JObj fs) = Return True"
  using assms
  by (simp add: is_expired_def key_in_dom try_expired_JObj py_fromisoformat_def)

lemma is_expired_overflow:
  assumes "map_of fs ''timestamp'' = Some (JStr s)"
    and "fromisoformat L s = Some d"
    and "MAX_TICKS \<le> ticks d + timedelta_days TTL_DAYS"
  shows "is_expired L now (JObj fs) = Raise OverflowError"
  using assms
  by (simp add: is_expired_def key_in_dom try_expired_JObj py_fromisoformat_def)






section \<open>Writes, and the read that follows\<close>






section \<open>Clearing the cache\<close>

lemma get_empty: "cache self = JObj [] \<Longrightarrow> get L now key self w = (Return None, self, w)"
  by (simp add: get_def)

lemma clear_result:
  "clear self w =
     (Return (), self\<lparr>cache := JObj [], dirty := True\<rparr>,
      if cache_file w = None then trace ExistsFile w
      else if can_remove w
           then emit INFO CacheCleared (trace Remove (trace ExistsFile w)\<lparr>cache_file := None\<rparr>)
           else emit WARNING (DeleteFailed OSError) (trace Remove (trace ExistsFile w)))"
  by (simp add: clear_def remove_file_def trace_def emit_def Let_def)

text \<open>
  Claim C7. For every cache object and world, \<open>clear\<close> returns without
  raising, leaves the mapping empty and the dirty flag set, and, whatever the
  dirty flag was and without any \<open>close\<close>, asks whether the cache file exists
  and, if it does, calls \<^verbatim>\<open>os.remove\<close> on it at once. When the removal
  succeeds the file is gone; when it fails a warning is logged, the file stays
  and the mapping is empty all the same. Afterwards \<open>get\<close> returns
  \<^verbatim>\<open>None\<close> for every key and changes nothing.
\<close>

theorem clear_empties_and_deletes:
  "fst (clear self w) = Return ()
   \<and> fst (snd (clear self w)) = self\<lparr>cache := JObj [], dirty := True\<rparr>
   \<and> io_trace (snd (snd (clear self w)))
       = io_trace w @ (if cache_file w = None then [ExistsFile] else [ExistsFile, Remove])
   \<and> cache_file (snd (snd (clear self w)))
       = (if can_remove w then None else cache_file w)
   \<and> logged (snd (snd (clear self w)))
       = logged w @ (if cache_file w = None then []
                     else if can_remove w then [(INFO, CacheCleared)]
                     else [(WARNING, DeleteFailed OSError)])
   \<and> (\<forall>L now key.
         get L now key (fst (snd (clear self w))) (snd (snd (clear self w)))
           = (Return None, fst (snd (clear self w)), snd (snd (clear self w))))"
proof -
  have "cache (fst (snd (clear self w))) = JObj []"
    by (simp add: clear_result)
  then have "\<forall>L now key.
         get L now key (fst (snd (clear self w))) (snd (snd (clear self w)))
           = (Return None, fst (snd (clear self w)), snd (snd (clear self w)))"
    by (simp add: get_empty)
  moreover have "cache_file (snd (snd (clear self w)))
       = (if can_remove w then None else cache_file w)"
    by (cases "cache_file w") (simp_all add: clear_result trace_def emit_def)
  ultimately show ?thesis
    by (simp add: clear_result trace_def emit_def)
qed

theorem clear_empties_and_deletes_witness:
  "clear stored_cache (stored_world\<lparr>can_remove := False\<rparr>)
     = (Return (), \<lparr>disabled = False, cache = JObj [], dirty = True\<rparr>,
        stored_world\<lparr>can_remove := False, io_trace := [ExistsFile, Remove],
                     logged := [(WARNING, DeleteFailed OSError)]\<rparr>)
   \<and> get sample_lib T0 matrix_key \<lparr>disabled = False, cache = JObj [], dirty = True\<rparr>
        (stored_world\<lparr>can_remove := False, io_trace := [ExistsFile, Remove],
                      logged := [(WARNING, DeleteFailed OSError)]\<rparr>)
     = (Return None, \<lparr>disabled = False, cache = JObj [], dirty = True\<rparr>,
        stored_world\<lparr>can_remove := False, io_trace := [ExistsFile, Remove],
                     logged := [(WARNING, DeleteFailed OSError)]\<rparr>)"
proof -
  let ?w = "stored_world\<lparr>can_remove := False\<rparr>"
  let ?s' = "\<lparr>disabled = False, cache = JObj [], dirty = True\<rparr>"
  let ?w' = "stored_world\<lparr>can_remove := False, io_trace := [ExistsFile, Remove],
                           logged := [(WARNING, DeleteFailed OSError)]\<rparr>"
  note inst = clear_empties_and_deletes [of stored_cache ?w]
  have present: "cache_file ?w \<noteq> None" and perm: "\<not> can_remove ?w"
    by (simp_all add: stored_world_def)
  have s': "fst (snd (clear stored_cache ?w)) = ?s'"
    using inst by (simp add: stored_cache_def)
  have "io_trace (snd (snd (clear stored_cache ?w))) = [ExistsFile, Remove]"
    and "logged (snd (snd (clear stored_cache ?w))) = [(WARNING, DeleteFailed OSError)]"
    and "cache_file (snd (snd (clear stored_cache ?w))) = cache_file stored_world"
    using inst present perm by (simp_all add: stored_world_def)
  moreover have "dir_exists (snd (snd (clear stored_cache ?w))) = dir_exists ?w
      \<and> can_mkdir (snd (snd (clear stored_cache ?w))) = can_mkdir ?w
      \<and> can_read (snd (snd (clear stored_cache ?w))) = can_read ?w
      \<and> write_mode (snd (snd (clear stored_cache ?w))) = write_mode ?w
      \<and> can_remove (snd (snd (clear stored_cache ?w))) = can_remove ?w"
    by (simp add: clear_def remove_file_def trace_def emit_def Let_def stored_world_def)
  ultimately have w': "snd (snd (clear stored_cache ?w)) = ?w'"
    by (simp add: stored_world_def)
  have r: "fst (clear stored_cache ?w) = Return ()"
    using inst by (rule conjunct1)
  have first: "clear stored_cache ?w = (Return (), ?s', ?w')"
    using r s' w' by (metis prod.collapse)
  from inst have "get sample_lib T0 matrix_key (fst (snd (clear stored_cache ?w)))
                    (snd (snd (clear stored_cache ?w)))
                  = (Return None, fst (snd (clear stored_cache ?w)), snd (snd (clear stored_cache ?w)))"
    by blast
  then have "get sample_lib T0 matrix_key ?s' ?w' = (Return None, ?s', ?w')"
    by (simp only: s' w')
  with first show ?thesis
    by (intro conjI)
qed

section \<open>What every reachable cache object satisfies\<close>

lemma sized_JObj: "sized (JObj al)"
  by (simp add: sized_def)

lemma sized_setitem: "sized c \<Longrightarrow> py_setitem c k v = Return c' \<Longrightarrow> sized c'"
  by (cases c) (auto simp: sized_def)

lemma sized_delitem: "sized c \<Longrightarrow> py_delitem c k = Return c' \<Longrightarrow> sized c'"
  by (cases c) (auto simp: sized_def split: if_splits)

lemma get_inv: "reachable_inv self \<Longrightarrow> reachable_inv (fst (snd (get L now key self w)))"
  by (auto simp: get_def reachable_inv_def Let_def sized_delitem
           split: outcome.splits if_splits)

lemma set_entry_inv:
  "reachable_inv self \<Longrightarrow> reachable_inv (fst (snd (set_entry L now key entry self w)))"
  by (auto simp: set_entry_def reachable_inv_def sized_setitem split: outcome.splits if_splits)

lemma clear_inv: "reachable_inv (fst (snd (clear self w)))"
  by (simp add: clear_result reachable_inv_def sized_JObj)

lemma save_self: "fst (snd (save L now self w)) = self"
  by (simp add: save_def Let_def split: prod.split outcome.split)

lemma close_cache:
  "cache (fst (snd (close L now self w))) = cache self
   \<and> disabled (fst (snd (close L now self w))) = disabled self"
proof (cases "save L now self w")
  case (fields r self1 w1)
  then have "self1 = self"
    using save_self [of L now self w] by simp
  with fields show ?thesis
    by (cases r) (simp_all add: close_def)
qed

lemma close_inv: "reachable_inv self \<Longrightarrow> reachable_inv (fst (snd (close L now self w)))"
  by (simp add: reachable_inv_def close_cache)

lemma step_inv: "reachable_inv self \<Longrightarrow> reachable_inv (fst (step L c (self, w)))"
  by (cases c)
     (simp_all add: get_inv set_entry_inv clear_inv close_inv get_by_search_def
                    set_by_search_def Let_def)

lemma run_inv: "reachable_inv self \<Longrightarrow> reachable_inv (fst (run L cs (self, w)))"
proof (induction cs arbitrary: self w)
  case Nil
  then show ?case by simp
next
  case (Cons c cs)
  obtain self1 w1 where s: "step L c (self, w) = (self1, w1)"
    by (cases "step L c (self, w)")
  then have "reachable_inv self1"
    using step_inv [OF Cons.prems, of L c w] by simp
  then show ?case
    using Cons.IH s by simp
qed

lemma init_inv:
  assumes "init dis w = (Return (), self, w')"
  shows "reachable_inv self \<and> disabled self = dis"
proof (cases dis)
  case True
  with assms show ?thesis
    by (auto simp: init_def reachable_inv_def sized_JObj)
next
  case False
  with assms have "load \<lparr>disabled = False, cache = JObj [], dirty = False\<rparr> w = (Return (), self, w')"
    by (simp add: init_def)
  then have "disabled self = False \<and> sized (cache self)"
    by (auto simp: load_def Let_def sized_def split: option.splits prod.splits outcome.splits if_splits)
  with False show ?thesis
    by (simp add: reachable_inv_def)
qed

lemma step_disabled:
  "disabled self \<Longrightarrow> disabled (fst (step L c (self, w)))"
proof (cases c)
  case (Close now)
  assume "disabled self"
  then show ?thesis
    using Close close_cache [of L now self w] by simp
qed (auto simp: get_def set_entry_def clear_result get_by_search_def set_by_search_def Let_def)

lemma run_disabled:
  "disabled self \<Longrightarrow> reachable_inv self
   \<Longrightarrow> disabled (fst (run L cs (self, w))) \<and> cache (fst (run L cs (self, w))) = JObj []"
proof (induction cs arbitrary: self w)
  case Nil
  then show ?case by (simp add: reachable_inv_def)
next
  case (Cons c cs)
  obtain self1 w1 where s: "step L c (self, w) = (self1, w1)"
    by (cases "step L c (self, w)")
  have "disabled self1" and "reachable_inv self1"
    using step_disabled [OF Cons.prems(1), of L c w] step_inv [OF Cons.prems(2), of L c w] s
    by simp_all
  then show ?case
    using Cons.IH s by simp
qed

text \<open>
  Claim C10. A cache constructed with \<open>disabled=True\<close> has an empty mapping
  right after construction, and the constructor performs no load: it leaves the
  world as it was. After every sequence of \<open>get\<close>, \<open>get_by_search\<close>,
  \<open>set\<close>, \<open>set_by_search\<close>, \<open>clear\<close> and \<open>close\<close> calls, with any
  arguments and clock readings, the object is still disabled and its mapping is
  still empty.
\<close>

theorem disabled_cache_stays_empty:
  "init True w = (Return (), \<lparr>disabled = True, cache = JObj [], dirty = False\<rparr>, w)
   \<and> (\<forall>L cs. disabled (fst (run L cs (fst (snd (init True w)), snd (snd (init True w)))))
              \<and> cache (fst (run L cs (fst (snd (init True w)), snd (snd (init True w))))) = JObj [])"
proof -
  have constructed: "init True w = (Return (), \<lparr>disabled = True, cache = JObj [], dirty = False\<rparr>, w)"
    by (simp add: init_def)
  then have "reachable_inv (fst (snd (init True w)))" and "disabled (fst (snd (init True w)))"
    using init_inv [OF constructed] by simp_all
  then have "\<forall>L cs. disabled (fst (run L cs (fst (snd (init True w)), snd (snd (init True w)))))
              \<and> cache (fst (run L cs (fst (snd (init True w)), snd (snd (init True w))))) = JObj []"
    using run_disabled by blast
  with constructed show ?thesis
    by (intro conjI)
qed

theorem disabled_cache_stays_empty_witness:
  "cache (fst (run sample_lib
                [SetBySearch T0 (Some ''Movie'') (Some ''The Matrix'') (PInt 1999) matrix_entry,
                 Get T0 matrix_key, Clear, SetEntry T0 matrix_key matrix_entry, Close T0,
                 GetBySearch T0 (Some ''Movie'') (Some ''The Matrix'') (PInt 1999)]
                (disabled_cache, stored_world))) = JObj []"
proof -
  have "init True stored_world = (Return (), disabled_cache, stored_world)"
    using disabled_cache_stays_empty [of stored_world] by (simp add: disabled_cache_def)
  then have "fst (snd (init True stored_world)) = disabled_cache"
    and "snd (snd (init True stored_world)) = stored_world"
    by simp_all
  then show ?thesis
    using disabled_cache_stays_empty [of stored_world] by metis
qed

section \<open>Saving on close\<close>













lemma close_makedirs_fails:
  assumes "dirty self" and "\<not> disabled self" and "\<not> dir_exists w" and "\<not> can_mkdir w"
  shows "close L now self w = (Raise OSError, self, trace Makedirs (trace ExistsDir w))"
  using assms by (simp add: close_def save_def makedirs_def trace_def Let_def)




text \<open>
  The call of \<^verbatim>\<open>os.makedirs\<close> is outside the \<^verbatim>\<open>try\<close> of \<^verbatim>\<open>_save\<close>: when
  the directory is absent and cannot be created, \<open>close\<close> raises and the dirty
  flag stays set.
\<close>

lemma close_makedirs_failure_example:
  "close sample_lib T0 dirty_cache (fresh_world\<lparr>can_mkdir := False\<rparr>)
     = (Raise OSError, dirty_cache,
        fresh_world\<lparr>can_mkdir := False, io_trace := [ExistsDir, Makedirs]\<rparr>)"
  by (simp add: close_makedirs_fails dirty_cache_def fresh_world_def trace_def)

section \<open>The round trip through the file\<close>






section \<open>Construction from the file\<close>

lemma init_missing_file:
  "cache_file w = None
   \<Longrightarrow> init False w = (Return (), \<lparr>disabled = False, cache = JObj [], dirty = False\<rparr>,
                        trace ExistsFile w)"
  by (simp add: init_def load_def trace_def Let_def)

lemma init_unreadable_file:
  "cache_file w = Some content \<Longrightarrow> \<not> can_read w
   \<Longrightarrow> init False w = (Return (), \<lparr>disabled = False, cache = JObj [], dirty = False\<rparr>,
                        emit WARNING (LoadFailed OSError) (trace OpenRead (trace ExistsFile w)))"
  by (simp add: init_def load_def read_json_def trace_def emit_def Let_def)

lemma init_malformed_file:
  "cache_file w = Some Malformed \<Longrightarrow> can_read w
   \<Longrightarrow> init False w = (Return (), \<lparr>disabled = False, cache = JObj [], dirty = False\<rparr>,
                        emit WARNING (LoadFailed JSONDecodeError) (trace OpenRead (trace ExistsFile w)))"
  by (simp add: init_def load_def read_json_def trace_def emit_def Let_def)

text \<open>
  Claim C3 at three files the constructor can meet. A file whose JSON document
  is not an object (here the empty array): \<^verbatim>\<open>data.get\<close> raises
  \<^verbatim>\<open>AttributeError\<close>, which the \<^verbatim>\<open>except\<close> clause of \<^verbatim>\<open>_load\<close> does not
  name. A document whose \<open>entries\<close> is \<^verbatim>\<open>null\<close>: \<^verbatim>\<open>len(self.cache)\<close> raises
  \<^verbatim>\<open>TypeError\<close>. A file that is not UTF-8: reading it raises
  \<^verbatim>\<open>UnicodeDecodeError\<close>. In each case the constructor raises to its caller and
  logs nothing.
\<close>

theorem init_raises_on_unexpected_file:
  "init False (stored_world\<lparr>cache_file := Some (Document (JArr []))\<rparr>)
     = (Raise AttributeError, \<lparr>disabled = False, cache = JObj [], dirty = False\<rparr>,
        stored_world\<lparr>cache_file := Some (Document (JArr [])),
                     io_trace := [ExistsFile, OpenRead]\<rparr>)
   \<and> init False (stored_world\<lparr>cache_file := Some (Document (JObj [(''entries'', JNull)]))\<rparr>)
     = (Raise TypeError, \<lparr>disabled = False, cache = JNull, dirty = False\<rparr>,
        stored_world\<lparr>cache_file := Some (Document (JObj [(''entries'', JNull)])),
                     io_trace := [ExistsFile, OpenRead]\<rparr>)
   \<and> init False (stored_world\<lparr>cache_file := Some Undecodable\<rparr>)
     = (Raise UnicodeDecodeError, \<lparr>disabled = False, cache = JObj [], dirty = False\<rparr>,
        stored_world\<lparr>cache_file := Some Undecodable, io_trace := [ExistsFile, OpenRead]\<rparr>)"
  by (simp add: init_def load_def read_json_def trace_def Let_def stored_world_def)

section \<open>The disabled cache and the disk\<close>

lemma disabled_get: "disabled self \<Longrightarrow> get L now key self w = (Return None, self, w)"
  by (simp add: get_def)

lemma disabled_set_entry:
  "disabled self \<Longrightarrow> set_entry L now key entry self w = (Return (), self, w)"
  by (simp add: set_entry_def)

lemma disabled_close: "disabled self \<Longrightarrow> snd (snd (close L now self w)) = w"
  by (simp add: close_def save_def)

text \<open>
  Claim C2 at a disabled cache constructed where a cache file exists. The
  constructor touches nothing, but \<open>clear\<close>, which has no test of
  \<open>disabled\<close>, asks the file system whether the file exists, removes it,
  logs that and sets the dirty flag.
\<close>

theorem disabled_clear_removes_file:
  "init True stored_world = (Return (), disabled_cache, stored_world)
   \<and> clear disabled_cache stored_world
       = (Return (), disabled_cache\<lparr>dirty := True\<rparr>,
          stored_world\<lparr>cache_file := None, io_trace := [ExistsFile, Remove],
                       logged := [(INFO, CacheCleared)]\<rparr>)"
  by (simp add: init_def clear_result disabled_cache_def stored_world_def trace_def emit_def)

end
